theory Spec2Isabelle
  imports Main "HOL-Library.Sublist" "HOL-Library.Log_Nat"
begin

section \<open>The record filter of the form-builder app\<close>

text \<open>
  The subject is the \<^verbatim>\<open>Record\<close> screen of the React Native form app
  (\<^verbatim>\<open>src/unnamed/part_000\<close>): its component state \<^verbatim>\<open>records\<close> /
  \<^verbatim>\<open>originalRecords\<close> and the handlers \<^verbatim>\<open>fetchRecords\<close>,
  \<^verbatim>\<open>handleDelete\<close> and \<^verbatim>\<open>applyFilter\<close>.

  The handlers are JavaScript, so the callback of \<^verbatim>\<open>applyFilter\<close> runs on
  dynamically typed values and leans on the coercions of the language
  (\<^verbatim>\<open>String\<close>, \<^verbatim>\<open>isNaN\<close>, \<^verbatim>\<open>parseFloat\<close>, \<^verbatim>\<open>==\<close>). The first
  part of the theory fixes the values and those built-ins; the second part is the
  component itself.
\<close>

subsection \<open>JavaScript values\<close>

text \<open>
  A field of a record comes from JSON: the app stores the text of an input box, the URI
  of a picked image or a \<^verbatim>\<open>{latitude, longitude}\<close> object; the backend may also
  hold \<^verbatim>\<open>null\<close>, booleans and numbers. \<open>JUndefined\<close> is what a property read
  gives when nothing has the key. \<open>JFun\<close> is a built-in function, by name: what a read
  gives for a member that every object inherits, such as \<^verbatim>\<open>toString\<close>. \<open>JInt\<close> is
  a JSON number with an integer value (in the range where a double holds every integer);
  fractional JSON numbers and arrays are outside the model. Strings are ASCII text.
\<close>

datatype jsval =
    JUndefined
  | JNull
  | JBool bool
  | JInt int
  | JStr string
  | JObj "(string \<times> jsval) list"
  | JFun string

text \<open>
  A JavaScript number: a double, with the two zeros identified (no operation used by
  the component tells them apart).
\<close>

datatype jsnum = NaN | Fin rat | PosInf | NegInf

subsection \<open>Rounding a rational to the nearest double\<close>

definition pow2 :: "int \<Rightarrow> rat" where
  "pow2 e = (if 0 \<le> e then 2 ^ nat e else 1 / 2 ^ nat (- e))"

definition floorlog2 :: "rat \<Rightarrow> int" where
  \<comment> \<open>for \<open>a > 0\<close>: the \<open>e\<close> with \<open>2^e \<le> a < 2^(e+1)\<close>\<close>
  "floorlog2 a =
     (let (p, q) = quotient_of a;
          e0 = bitlen p - bitlen q
      in if pow2 e0 \<le> a then e0 else e0 - 1)"

definition roundHalfEven :: "rat \<Rightarrow> int" where
  "roundHalfEven m =
     (let f = \<lfloor>m\<rfloor>; d = m - of_int f
      in if d < 1 / 2 then f else if 1 / 2 < d then f + 1
         else if even f then f else f + 1)"

definition toDouble :: "rat \<Rightarrow> jsnum" where
  \<comment> \<open>binary64, round to nearest, ties to even; overflow gives an infinity\<close>
  "toDouble q =
     (if q = 0 then Fin 0
      else let a = \<bar>q\<bar>;
               e = max (floorlog2 a) (- 1022);
               u = pow2 (e - 52);
               r = of_int (roundHalfEven (a / u)) * u
           in if pow2 1024 \<le> r then (if q < 0 then NegInf else PosInf)
              else Fin (if q < 0 then - r else r))"

subsection \<open>Characters and strings\<close>

definition isWhiteSpace :: "char \<Rightarrow> bool" where
  "isWhiteSpace c = (c \<in> set [CHR 0x20, CHR 0x09, CHR 0x0A, CHR 0x0B, CHR 0x0C, CHR 0x0D])"

definition isDigit :: "char \<Rightarrow> bool" where
  "isDigit c = (c \<in> set ''0123456789'')"

definition digitVal :: "char \<Rightarrow> nat" where
  "digitVal c = (of_char c :: nat) - 48"

definition isHexDigit :: "char \<Rightarrow> bool" where
  "isHexDigit c = (c \<in> set ''0123456789abcdefABCDEF'')"

definition hexVal :: "char \<Rightarrow> nat" where
  "hexVal c = (if isDigit c then digitVal c
               else if c \<in> set ''abcdef'' then (of_char c :: nat) - 87
               else (of_char c :: nat) - 55)"

definition digitsVal :: "int \<Rightarrow> string \<Rightarrow> int" where
  \<comment> \<open>the number written by a digit string in the given base\<close>
  "digitsVal b ds = foldl (\<lambda>n c. n * b + int (hexVal c)) 0 ds"

definition lowerChar :: "char \<Rightarrow> char" where
  "lowerChar c =
     (case map_of (zip ''ABCDEFGHIJKLMNOPQRSTUVWXYZ'' ''abcdefghijklmnopqrstuvwxyz'') c of
        Some d \<Rightarrow> d
      | None \<Rightarrow> c)"

definition toLowerCase :: "string \<Rightarrow> string" where
  "toLowerCase s = map lowerChar s"

definition trimStart :: "string \<Rightarrow> string" where
  "trimStart s = dropWhile isWhiteSpace s"

fun startsWith :: "string \<Rightarrow> string \<Rightarrow> bool" where
  \<comment> \<open>\<^verbatim>\<open>s.startsWith(t)\<close>\<close>
  "startsWith s [] = True"
| "startsWith [] (y # t) = False"
| "startsWith (x # s) (y # t) = (x = y \<and> startsWith s t)"

fun includes_js :: "string \<Rightarrow> string \<Rightarrow> bool" where
  \<comment> \<open>\<^verbatim>\<open>s.includes(t)\<close>: is there a position of \<open>s\<close> where \<open>t\<close> starts\<close>
  "includes_js [] t = startsWith [] t"
| "includes_js (x # s) t = (startsWith (x # s) t \<or> includes_js s t)"

subsection \<open>Parsing numbers\<close>

text \<open>
  \<open>parseDecimal\<close> reads the longest prefix of its input that is a
  \<^verbatim>\<open>StrDecimalLiteral\<close> of the language: an optional sign, then \<^verbatim>\<open>Infinity\<close> or
  digits with an optional fraction and an optional exponent. It returns the number and
  the rest of the input, or \<open>None\<close> when no prefix is such a literal.
\<close>

definition parseExponent :: "string \<Rightarrow> int \<times> string" where
  \<comment> \<open>an exponent part at the head of the input, if there is a complete one\<close>
  "parseExponent s =
     (case s of
        [] \<Rightarrow> (0, s)
      | c # t \<Rightarrow>
          if c = CHR ''e'' \<or> c = CHR ''E'' then
            (let (neg, u) = (case t of
                               [] \<Rightarrow> (False, t)
                             | d # v \<Rightarrow> if d = CHR ''-'' then (True, v)
                                        else if d = CHR ''+'' then (False, v)
                                        else (False, t));
                 ds = takeWhile isDigit u
             in if ds = [] then (0, s)
                else ((if neg then - digitsVal 10 ds else digitsVal 10 ds),
                      dropWhile isDigit u))
          else (0, s))"

definition scale10 :: "rat \<Rightarrow> int \<Rightarrow> rat" where
  "scale10 m e = (if 0 \<le> e then m * 10 ^ nat e else m / 10 ^ nat (- e))"

definition parseUnsigned :: "string \<Rightarrow> (rat option \<times> string) option" where
  \<comment> \<open>\<open>Some (None, rest)\<close> stands for \<^verbatim>\<open>Infinity\<close>\<close>
  "parseUnsigned s =
     (if startsWith s ''Infinity'' then Some (None, drop 8 s)
      else
        let ip = takeWhile isDigit s;
            r1 = dropWhile isDigit s;
            (fp, r2, dot) = (case r1 of
                               [] \<Rightarrow> ([], r1, False)
                             | c # t \<Rightarrow> if c = CHR ''.''
                                        then (takeWhile isDigit t, dropWhile isDigit t, True)
                                        else ([], r1, False))
        in if ip = [] \<and> fp = [] then None
           else
             let (e, r3) = parseExponent r2;
                 m = of_int (digitsVal 10 (ip @ fp)) / 10 ^ length fp
             in Some (Some (scale10 m e), r3))"

definition parseDecimal :: "string \<Rightarrow> (jsnum \<times> string) option" where
  "parseDecimal s =
     (let (neg, t) = (case s of
                        [] \<Rightarrow> (False, s)
                      | c # u \<Rightarrow> if c = CHR ''-'' then (True, u)
                                 else if c = CHR ''+'' then (False, u)
                                 else (False, s))
      in case parseUnsigned t of
           None \<Rightarrow> None
         | Some (None, r) \<Rightarrow> Some (if neg then NegInf else PosInf, r)
         | Some (Some q, r) \<Rightarrow> Some (toDouble (if neg then - q else q), r))"

definition parseRadix :: "string \<Rightarrow> jsnum option" where
  \<comment> \<open>\<^verbatim>\<open>0x\<close>, \<^verbatim>\<open>0o\<close> and \<^verbatim>\<open>0b\<close> literals, up to trailing white space\<close>
  "parseRadix s =
     (case s of
        z # k # t \<Rightarrow>
          if z = CHR ''0'' then
            (let base = (if k \<in> set ''xX'' then 16 else if k \<in> set ''oO'' then 8
                         else if k \<in> set ''bB'' then 2 else 0);
                 ok = (\<lambda>c. isHexDigit c \<and> int (hexVal c) < base);
                 ds = takeWhile ok t
             in if base = 0 then None
                else if ds = [] then None
                else if list_all isWhiteSpace (dropWhile ok t)
                then Some (toDouble (of_int (digitsVal base ds)))
                else None)
          else None
      | _ \<Rightarrow> None)"

definition stringToNumber :: "string \<Rightarrow> jsnum" where
  \<comment> \<open>\<^verbatim>\<open>Number(s)\<close> on a string: white space around one numeric literal; blank is 0\<close>
  "stringToNumber s =
     (let t = trimStart s
      in if t = [] then Fin 0
         else case parseDecimal t of
                Some (v, r) \<Rightarrow>
                  if list_all isWhiteSpace r then v
                  else (case parseRadix t of Some w \<Rightarrow> w | None \<Rightarrow> NaN)
              | None \<Rightarrow> NaN)"

definition parseFloatString :: "string \<Rightarrow> jsnum" where
  \<comment> \<open>\<^verbatim>\<open>parseFloat\<close> on a string: leading white space, then the longest decimal prefix\<close>
  "parseFloatString s = (case parseDecimal (trimStart s) of Some (v, r) \<Rightarrow> v | None \<Rightarrow> NaN)"

subsection \<open>Coercions and built-ins on values\<close>

function natDigits :: "nat \<Rightarrow> string" where
  "natDigits n = (if n < 10 then [''0123456789'' ! n]
                  else natDigits (n div 10) @ [''0123456789'' ! (n mod 10)])"
  by pat_completeness auto
termination
  by (relation "measure id") auto

declare natDigits.simps [simp del]

definition intToString :: "int \<Rightarrow> string" where
  "intToString i = (if i < 0 then CHR ''-'' # natDigits (nat (- i)) else natDigits (nat i))"

text \<open>
  The rendering of a built-in function is the engine's; every engine writes it in the
  form \<^verbatim>\<open>function name() { [native code] }\<close>, differing at most in the parameter
  list and the white space.
\<close>

fun String_js :: "jsval \<Rightarrow> string" where
  \<comment> \<open>\<^verbatim>\<open>String(v)\<close>\<close>
  "String_js JUndefined = ''undefined''"
| "String_js JNull = ''null''"
| "String_js (JBool b) = (if b then ''true'' else ''false'')"
| "String_js (JInt i) = intToString i"
| "String_js (JStr s) = s"
| "String_js (JObj kvs) = ''[object Object]''"
| "String_js (JFun name) = ''function '' @ name @ ''() { [native code] }''"

fun toNumber :: "jsval \<Rightarrow> jsnum" where
  \<comment> \<open>\<^verbatim>\<open>Number(v)\<close>, the coercion inside \<^verbatim>\<open>isNaN\<close>\<close>
  "toNumber JUndefined = NaN"
| "toNumber JNull = Fin 0"
| "toNumber (JBool b) = (if b then Fin 1 else Fin 0)"
| "toNumber (JInt i) = toDouble (of_int i)"
| "toNumber (JStr s) = stringToNumber s"
| "toNumber (JObj kvs) = NaN"
| "toNumber (JFun name) = NaN"

definition isNaN :: "jsval \<Rightarrow> bool" where
  "isNaN v = (toNumber v = NaN)"

definition parseFloat :: "jsval \<Rightarrow> jsnum" where
  \<comment> \<open>\<^verbatim>\<open>parseFloat(v)\<close> first turns its argument into a string\<close>
  "parseFloat v = parseFloatString (String_js v)"

fun numLess :: "jsnum \<Rightarrow> jsnum \<Rightarrow> bool" where
  \<comment> \<open>\<^verbatim>\<open>a < b\<close> on numbers: false whenever a side is NaN\<close>
  "numLess NaN b = False"
| "numLess a NaN = False"
| "numLess (Fin x) (Fin y) = (x < y)"
| "numLess (Fin x) PosInf = True"
| "numLess (Fin x) NegInf = False"
| "numLess PosInf b = False"
| "numLess NegInf NegInf = False"
| "numLess NegInf b = True"

definition numEq :: "jsnum \<Rightarrow> jsnum \<Rightarrow> bool" where
  \<comment> \<open>\<^verbatim>\<open>a === b\<close> on numbers: NaN equals nothing\<close>
  "numEq a b = (a \<noteq> NaN \<and> b \<noteq> NaN \<and> a = b)"

definition numLessEq :: "jsnum \<Rightarrow> jsnum \<Rightarrow> bool" where
  \<comment> \<open>\<^verbatim>\<open>a <= b\<close>\<close>
  "numLessEq a b = (numLess a b \<or> numEq a b)"

subsection \<open>Records, criteria and the state of the component\<close>

text \<open>
  A record of the backend is an object \<^verbatim>\<open>{id, values}\<close> whose \<^verbatim>\<open>values\<close>
  is an object keyed by field name; the map holds its own properties. A criterion is
  what the filter builder hands to \<^verbatim>\<open>onApply\<close>: \<^verbatim>\<open>{field, operator, value}\<close>.
  The operator stays a string, since the code switches on it with a default branch; the
  logic stays a value, since the code only asks whether it is strictly equal to
  \<^verbatim>\<open>'AND'\<close>.
\<close>

record js_record =
  id_rec :: int
  values_rec :: "string \<rightharpoonup> jsval"

record criterion =
  field_c :: string
  operator_c :: string
  value_c :: jsval

text \<open>The two pieces of \<^verbatim>\<open>useState\<close> that the handlers read and write.\<close>

record state =
  records :: "js_record list"
  originalRecords :: "js_record list"

text \<open>
  A property read looks at the object first and then at what it inherits. The values of
  a record come from JSON, so they inherit from \<^verbatim>\<open>Object.prototype\<close>: its methods,
  \<^verbatim>\<open>constructor\<close> (the function \<^verbatim>\<open>Object\<close>) and the accessor \<^verbatim>\<open>__proto__\<close>
  (the prototype itself, an object). Any other key that the record does not hold reads
  as \<^verbatim>\<open>undefined\<close>.
\<close>

definition objectPrototypeFunctions :: "string list" where
  "objectPrototypeFunctions =
     [''hasOwnProperty'', ''isPrototypeOf'', ''propertyIsEnumerable'', ''toLocaleString'',
      ''toString'', ''valueOf'', ''__defineGetter__'', ''__defineSetter__'',
      ''__lookupGetter__'', ''__lookupSetter__'']"

definition prototypeMember :: "string \<Rightarrow> jsval" where
  \<comment> \<open>the read of a key that the object itself does not hold\<close>
  "prototypeMember k =
     (if k = ''constructor'' then JFun ''Object''
      else if k \<in> set objectPrototypeFunctions then JFun k
      else if k = ''__proto__'' then JObj []
      else JUndefined)"

definition getField :: "js_record \<Rightarrow> string \<Rightarrow> jsval" where
  \<comment> \<open>\<^verbatim>\<open>record.values[c.field]\<close>\<close>
  "getField r k = (case values_rec r k of None \<Rightarrow> prototypeMember k | Some v \<Rightarrow> v)"

definition looseNull :: "jsval \<Rightarrow> bool" where
  \<comment> \<open>\<^verbatim>\<open>val == null\<close>\<close>
  "looseNull v = (v = JUndefined \<or> v = JNull)"

subsection \<open>Array methods\<close>

fun every :: "('a \<Rightarrow> bool) \<Rightarrow> 'a list \<Rightarrow> bool" where
  \<comment> \<open>\<^verbatim>\<open>Array.prototype.every\<close>: stops at the first element that fails\<close>
  "every p [] = True"
| "every p (x # xs) = (if p x then every p xs else False)"

fun some :: "('a \<Rightarrow> bool) \<Rightarrow> 'a list \<Rightarrow> bool" where
  \<comment> \<open>\<^verbatim>\<open>Array.prototype.some\<close>: stops at the first element that passes\<close>
  "some p [] = False"
| "some p (x # xs) = (if p x then True else some p xs)"

fun filter_js :: "('a \<Rightarrow> bool) \<Rightarrow> 'a list \<Rightarrow> 'a list" where
  \<comment> \<open>\<^verbatim>\<open>Array.prototype.filter\<close>: a new array of the elements that pass, in order\<close>
  "filter_js p [] = []"
| "filter_js p (x # xs) = (if p x then x # filter_js p xs else filter_js p xs)"

subsection \<open>The handlers\<close>

definition numericPath :: "jsval \<Rightarrow> jsval \<Rightarrow> bool" where
  \<comment> \<open>\<^verbatim>\<open>!isNaN(val) && !isNaN(c.value)\<close>\<close>
  "numericPath val cv = (\<not> isNaN val \<and> \<not> isNaN cv)"

definition matchCriterion :: "js_record \<Rightarrow> criterion \<Rightarrow> bool" where
  \<comment> \<open>the callback given to \<^verbatim>\<open>every\<close> / \<^verbatim>\<open>some\<close> in \<^verbatim>\<open>applyFilter\<close>\<close>
  "matchCriterion record c =
     (let val = getField record (field_c c)
      in if looseNull val then False
         else
           let strVal = toLowerCase (String_js val);
               input = toLowerCase (String_js (value_c c))
           in if numericPath val (value_c c) then
                (let numVal = parseFloat val;
                     numInput = parseFloat (value_c c)
                 in if operator_c c = ''equals'' then numEq numVal numInput
                    else if operator_c c = ''greater'' then numLess numInput numVal
                    else if operator_c c = ''less'' then numLess numVal numInput
                    else if operator_c c = ''greaterOrEqual'' then numLessEq numInput numVal
                    else if operator_c c = ''lessOrEqual'' then numLessEq numVal numInput
                    else False)
              else
                (if operator_c c = ''equals'' then strVal = input
                 else if operator_c c = ''contains'' then includes_js strVal input
                 else if operator_c c = ''startswith'' then startsWith strVal input
                 else False))"

definition keepRecord :: "criterion list \<Rightarrow> jsval \<Rightarrow> js_record \<Rightarrow> bool" where
  \<comment> \<open>\<^verbatim>\<open>criteria[logic === 'AND' ? 'every' : 'some'](...)\<close>\<close>
  "keepRecord criteria logic record =
     (if logic = JStr ''AND'' then every (matchCriterion record) criteria
      else some (matchCriterion record) criteria)"

definition applyFilter :: "criterion list \<Rightarrow> jsval \<Rightarrow> state \<Rightarrow> state" where
  "applyFilter criteria logic s =
     (if length criteria = 0 then s\<lparr>records := originalRecords s\<rparr>
      else s\<lparr>records := filter_js (keepRecord criteria logic) (originalRecords s)\<rparr>)"

text \<open>
  \<^verbatim>\<open>fetchRecords\<close> awaits the backend. The request either throws (the handler shows
  an alert and leaves both lists alone) or resolves to some JSON; anything but an array
  is replaced by the empty list.
\<close>

datatype response = Rejected | Array "js_record list" | NotArray

definition fetchRecords :: "response \<Rightarrow> state \<Rightarrow> state" where
  "fetchRecords resp s =
     (case resp of
        Rejected \<Rightarrow> s
      | Array data \<Rightarrow> s\<lparr>records := data, originalRecords := data\<rparr>
      | NotArray \<Rightarrow> s\<lparr>records := [], originalRecords := []\<rparr>)"

text \<open>
  \<^verbatim>\<open>handleDelete\<close>, once the user has confirmed: \<open>ok\<close> tells whether
  \<^verbatim>\<open>deleteRecord\<close> resolved; when it throws, the lists are left alone.
\<close>

definition handleDelete :: "bool \<Rightarrow> int \<Rightarrow> state \<Rightarrow> state" where
  "handleDelete ok recordId s =
     (if ok then
        s\<lparr>records := filter_js (\<lambda>r. id_rec r \<noteq> recordId) (records s),
          originalRecords := filter_js (\<lambda>r. id_rec r \<noteq> recordId) (originalRecords s)\<rparr>
      else s)"

definition initialState :: state where
  \<comment> \<open>\<^verbatim>\<open>useState([])\<close> for both lists\<close>
  "initialState = \<lparr>records = [], originalRecords = []\<rparr>"

text \<open>The states the component can be in: any run of the three handlers.\<close>

inductive reachable :: "state \<Rightarrow> bool" where
  init: "reachable initialState"
| fetch: "reachable s \<Longrightarrow> reachable (fetchRecords resp s)"
| apply_filter: "reachable s \<Longrightarrow> reachable (applyFilter criteria logic s)"
| delete: "reachable s \<Longrightarrow> reachable (handleDelete ok recordId s)"

subsection \<open>The operator tables and the parse rule, in the words of the specification\<close>

text \<open>
  The specification describes the callback by two operator tables and a parse rule.
  They are written down here on their own, with the library's \<open>prefix\<close> and
  \<open>sublist\<close> for the string tests, so that the callback can be compared with them.
\<close>

definition numericTable :: "string \<Rightarrow> jsnum \<Rightarrow> jsnum \<Rightarrow> bool" where
  \<comment> \<open>the numeric operator table: record side \<open>a\<close>, criterion side \<open>b\<close>\<close>
  "numericTable op a b =
     (if op = ''equals'' then numEq a b
      else if op = ''greater'' then numLess b a
      else if op = ''less'' then numLess a b
      else if op = ''greaterOrEqual'' then numLessEq b a
      else if op = ''lessOrEqual'' then numLessEq a b
      else False)"

definition stringTable :: "string \<Rightarrow> string \<Rightarrow> string \<Rightarrow> bool" where
  \<comment> \<open>the string operator table, on the two lowercased renderings\<close>
  "stringTable op a b =
     (if op = ''equals'' then a = b
      else if op = ''contains'' then sublist b a
      else if op = ''startswith'' then prefix b a
      else False)"

definition parsesAsNumber :: "jsval \<Rightarrow> bool" where
  \<comment> \<open>the value parses as a valid number: the decimal parse of its text yields one\<close>
  "parsesAsNumber v = (parseFloat v \<noteq> NaN)"

definition isDecimalText :: "jsval \<Rightarrow> bool" where
  \<comment> \<open>a number, or a string that is one decimal literal, white space around it allowed\<close>
  "isDecimalText v =
     (case v of
        JStr s \<Rightarrow> (case parseDecimal (trimStart s) of
                     Some (n, r) \<Rightarrow> list_all isWhiteSpace r
                   | None \<Rightarrow> False)
      | JInt i \<Rightarrow> True
      | _ \<Rightarrow> False)"

subsection \<open>Sample data\<close>

text \<open>The two records and the criteria of the specification's concrete scenarios.\<close>

definition brisbane :: js_record where
  "brisbane = \<lparr>id_rec = 1,
     values_rec = [''city'' \<mapsto> JStr ''Brisbane'', ''price'' \<mapsto> JStr ''100'']\<rparr>"

definition sydney :: js_record where
  "sydney = \<lparr>id_rec = 2,
     values_rec = [''city'' \<mapsto> JStr ''Sydney'', ''price'' \<mapsto> JStr ''50'']\<rparr>"

definition noFields :: js_record where
  "noFields = \<lparr>id_rec = 3, values_rec = Map.empty\<rparr>"

definition blankName :: js_record where
  \<comment> \<open>a text box that was typed into and cleared again\<close>
  "blankName = \<lparr>id_rec = 4, values_rec = [''name'' \<mapsto> JStr '''']\<rparr>"

definition tenX :: js_record where
  "tenX = \<lparr>id_rec = 5, values_rec = [''x'' \<mapsto> JStr ''10'']\<rparr>"

definition fetched :: state where
  "fetched = fetchRecords (Array [brisbane, sydney]) initialState"

definition cheap :: criterion where
  "cheap = \<lparr>field_c = ''price'', operator_c = ''lessOrEqual'', value_c = JStr ''75''\<rparr>"

definition inB :: criterion where
  "inB = \<lparr>field_c = ''city'', operator_c = ''startswith'', value_c = JStr ''B''\<rparr>"

definition dear :: criterion where
  "dear = \<lparr>field_c = ''price'', operator_c = ''greater'', value_c = JStr ''200''\<rparr>"

definition ageIs5 :: criterion where
  "ageIs5 = \<lparr>field_c = ''age'', operator_c = ''equals'', value_c = JStr ''5''\<rparr>"

definition isSydney :: criterion where
  "isSydney = \<lparr>field_c = ''city'', operator_c = ''equals'', value_c = JStr ''sydney''\<rparr>"

definition nameIsBlank :: criterion where
  "nameIsBlank = \<lparr>field_c = ''name'', operator_c = ''equals'', value_c = JStr ''''\<rparr>"

definition saysFunction :: criterion where
  "saysFunction =
     \<lparr>field_c = ''toString'', operator_c = ''contains'', value_c = JStr ''function''\<rparr>"

definition moreThan5 :: criterion where
  "moreThan5 = \<lparr>field_c = ''x'', operator_c = ''greater'', value_c = JStr ''5''\<rparr>"

section \<open>Properties\<close>

subsection \<open>The array methods and string tests are the library's\<close>

lemma every_iff: "every p xs \<longleftrightarrow> (\<forall>x\<in>set xs. p x)"
  by (induction xs) auto

lemma some_iff: "some p xs \<longleftrightarrow> (\<exists>x\<in>set xs. p x)"
  by (induction xs) auto

lemma filter_js_filter: "filter_js p xs = filter p xs"
  by (induction xs) auto

lemma startsWith_prefix: "startsWith s t \<longleftrightarrow> prefix t s"
  by (induction s t rule: startsWith.induct) auto

lemma includes_js_sublist: "includes_js s t \<longleftrightarrow> sublist t s"
  by (induction s) (auto simp: startsWith_prefix sublist_Cons_right)

lemma records_applyFilter:
  "records (applyFilter criteria logic s) =
     (if criteria = [] then originalRecords s
      else filter (keepRecord criteria logic) (originalRecords s))"
  by (simp add: applyFilter_def filter_js_filter)

lemma originalRecords_applyFilter:
  "originalRecords (applyFilter criteria logic s) = originalRecords s"
  by (simp add: applyFilter_def)

lemma keepRecord_iff:
  "keepRecord criteria logic r \<longleftrightarrow>
     (if logic = JStr ''AND'' then (\<forall>c\<in>set criteria. matchCriterion r c)
      else (\<exists>c\<in>set criteria. matchCriterion r c))"
  by (simp add: keepRecord_def every_iff some_iff)

subsection \<open>Rounding and parsing\<close>

text \<open>An integer below \<open>2^53\<close> in size is a double, so rounding leaves it alone.\<close>

lemma roundHalfEven_of_int: "roundHalfEven (of_int m) = m"
  by (simp add: roundHalfEven_def)

lemma bitlen_1: "bitlen 1 = 1"
  by (subst compute_bitlen) simp

lemma floorlog2_of_int_le: "floorlog2 (of_int k) \<le> bitlen k - 1"
  by (simp add: floorlog2_def Let_def bitlen_1)

lemma toDouble_of_int:
  assumes "\<bar>n\<bar> < 2 ^ 53"
  shows "toDouble (of_int n) = Fin (of_int n)"
proof (cases "n = 0")
  case True
  then show ?thesis by (simp add: toDouble_def)
next
  case False
  define k where "k = \<bar>n\<bar>"
  define e where "e = max (floorlog2 (of_int k)) (- 1022)"
  define j where "j = nat (52 - e)"
  have kpos: "0 < k" and kless: "k < 2 ^ 53"
    using False assms by (simp_all add: k_def)
  have "bitlen k \<le> 53"
    using kless by (simp add: bitlen_le_iff_power)
  then have e52: "e \<le> 52"
    using floorlog2_of_int_le [of k] by (simp add: e_def)
  have u: "pow2 (e - 52) = 1 / 2 ^ j"
    using e52 by (cases "e = 52") (simp_all add: pow2_def j_def)
  have q: "(of_int k :: rat) / (1 / 2 ^ j) = of_int (k * 2 ^ j)"
    by simp
  have r: "of_int (roundHalfEven (of_int k / pow2 (e - 52))) * pow2 (e - 52) = (of_int k :: rat)"
    unfolding u q roundHalfEven_of_int by simp
  have "(of_int k :: rat) < 2 ^ 53"
    using kless by (metis of_int_less_numeral_power_cancel_iff)
  also have "(2 :: rat) ^ 53 \<le> 2 ^ 1024"
    by (rule power_increasing) simp_all
  finally have small: "\<not> pow2 1024 \<le> (of_int k :: rat)"
    by (simp add: pow2_def)
  have a: "\<bar>of_int n :: rat\<bar> = of_int k"
    by (simp add: k_def)
  have "toDouble (of_int n) = Fin (if (of_int n :: rat) < 0 then - of_int k else of_int k)"
    using False r small by (simp add: toDouble_def Let_def a e_def [symmetric])
  also have "(if (of_int n :: rat) < 0 then - of_int k else of_int k) = (of_int n :: rat)"
    by (simp add: k_def)
  finally show ?thesis .
qed

lemma toDouble_numeral:
  "(numeral w :: int) < 2 ^ 53 \<Longrightarrow> toDouble (numeral w) = Fin (numeral w)"
  using toDouble_of_int [of "numeral w"] by simp

lemma toDouble_not_NaN: "toDouble q \<noteq> NaN"
  by (simp add: toDouble_def Let_def)

lemma parseDecimal_not_NaN: "parseDecimal s = Some (v, r) \<Longrightarrow> v \<noteq> NaN"
  by (auto simp: parseDecimal_def Let_def toDouble_not_NaN
      split: prod.splits option.splits if_splits list.splits)

lemma parseDecimal_Nil: "parseDecimal [] = None"
  by (simp add: parseDecimal_def parseUnsigned_def)

text \<open>
  The decimal rendering of an integer parses back to that integer, so
  \<^verbatim>\<open>parseFloat\<close> of a number is the number.
\<close>

lemma digit_char:
  assumes "d < 10"
  shows "isDigit (''0123456789'' ! d) \<and> hexVal (''0123456789'' ! d) = d"
proof -
  have "d = 0 \<or> d = 1 \<or> d = 2 \<or> d = 3 \<or> d = 4 \<or> d = 5 \<or> d = 6 \<or> d = 7 \<or> d = 8 \<or> d = 9"
    using assms by arith
  then show ?thesis
    by (elim disjE) (simp_all add: isDigit_def hexVal_def digitVal_def)
qed

lemma natDigits_props:
  "natDigits n \<noteq> [] \<and> list_all isDigit (natDigits n) \<and> digitsVal 10 (natDigits n) = int n"
proof (induction n rule: natDigits.induct)
  case (1 n)
  show ?case
  proof (cases "n < 10")
    case True
    then show ?thesis
      using digit_char [of n] by (subst (1 2 3) natDigits.simps) (simp add: digitsVal_def)
  next
    case False
    have d: "n mod 10 < 10" by simp
    from False "1.IH" digit_char [OF d] show ?thesis
      by (subst (1 2 3) natDigits.simps) (simp add: digitsVal_def zmod_int zdiv_int)
  qed
qed

lemma takeWhile_all: "list_all p xs \<Longrightarrow> takeWhile p xs = xs"
  by (induction xs) auto

lemma dropWhile_all: "list_all p xs \<Longrightarrow> dropWhile p xs = []"
  by (induction xs) auto

lemma parseUnsigned_digits:
  assumes "ds \<noteq> []" "list_all isDigit ds"
  shows "parseUnsigned ds = Some (Some (of_int (digitsVal 10 ds)), [])"
proof -
  obtain c cs where ds: "ds = c # cs"
    using assms(1) by (cases ds) auto
  have "isDigit c" using assms(2) ds by simp
  then have "c \<noteq> CHR ''I''" by (auto simp: isDigit_def)
  then have inf: "\<not> startsWith ds ''Infinity''" by (simp add: ds)
  show ?thesis
    using inf assms(1)
    by (simp add: parseUnsigned_def parseExponent_def scale10_def Let_def
        takeWhile_all [OF assms(2)] dropWhile_all [OF assms(2)])
qed

lemma parseDecimal_intToString:
  "parseDecimal (intToString i) = Some (toDouble (of_int i), [])"
proof -
  define n where "n = nat \<bar>i\<bar>"
  obtain c cs where ds: "natDigits n = c # cs"
    using natDigits_props [of n] by (cases "natDigits n") auto
  have "isDigit c" using natDigits_props [of n] ds by simp
  then have c: "c \<noteq> CHR ''-''" "c \<noteq> CHR ''+''" by (auto simp: isDigit_def)
  have p: "parseUnsigned (natDigits n) = Some (Some (of_int (int n)), [])"
    using parseUnsigned_digits [of "natDigits n"] natDigits_props [of n] by simp
  show ?thesis
  proof (cases "i < 0")
    case True
    then have "intToString i = CHR ''-'' # natDigits n" "of_int (int n) = - (of_int i :: rat)"
      by (simp_all add: intToString_def n_def)
    then show ?thesis
      using p by (simp add: parseDecimal_def)
  next
    case False
    then have "intToString i = natDigits n" "of_int (int n) = (of_int i :: rat)"
      by (simp_all add: intToString_def n_def)
    then show ?thesis
      using p c ds by (simp add: parseDecimal_def)
  qed
qed

lemma parseFloat_JInt: "parseFloat (JInt i) = toNumber (JInt i)"
proof -
  obtain c cs where ds: "intToString i = c # cs"
    using natDigits_props by (cases "intToString i") (auto simp: intToString_def split: if_splits)
  have "\<not> isWhiteSpace c"
  proof -
    have "c = CHR ''-'' \<or> isDigit c"
      using ds natDigits_props [of "nat i"]
      by (cases "natDigits (nat i)") (auto simp: intToString_def split: if_splits)
    then show ?thesis by (auto simp: isWhiteSpace_def isDigit_def)
  qed
  then have "trimStart (intToString i) = intToString i"
    by (simp add: trimStart_def ds)
  then show ?thesis
    by (simp add: parseFloat_def parseFloatString_def parseDecimal_intToString)
qed

text \<open>
  On a decimal literal the two parsers of the callback agree: the one inside
  \<^verbatim>\<open>isNaN\<close> and \<^verbatim>\<open>parseFloat\<close> give the same number, and it is not NaN.
\<close>

lemma decimalText_agree:
  assumes "isDecimalText v"
  shows "toNumber v = parseFloat v \<and> parseFloat v \<noteq> NaN"
proof (cases v)
  case (JStr s)
  from assms obtain n r where p: "parseDecimal (trimStart s) = Some (n, r)"
    and ws: "list_all isWhiteSpace r"
    by (auto simp: isDecimalText_def JStr split: option.splits)
  have ne: "trimStart s \<noteq> []"
    using p by (auto simp: parseDecimal_Nil)
  have "toNumber v = n"
    using p ws ne by (simp add: JStr stringToNumber_def Let_def)
  moreover have "parseFloat v = n"
    using p by (simp add: JStr parseFloat_def parseFloatString_def)
  ultimately show ?thesis
    using parseDecimal_not_NaN [OF p] by simp
next
  case (JInt i)
  then show ?thesis
    by (simp add: parseFloat_JInt toDouble_not_NaN)
qed (use assms in \<open>simp_all add: isDecimalText_def\<close>)

subsection \<open>The sample data, evaluated\<close>

lemmas parse_defs = parseFloat_def parseFloatString_def stringToNumber_def trimStart_def
  parseDecimal_def parseUnsigned_def parseExponent_def scale10_def digitsVal_def hexVal_def
  digitVal_def isDigit_def isWhiteSpace_def isNaN_def Let_def

lemmas match_defs = matchCriterion_def getField_def looseNull_def numericPath_def
  numLessEq_def numEq_def toLowerCase_def lowerChar_def

lemma fetched_simps:
  "originalRecords fetched = [brisbane, sydney]" "records fetched = [brisbane, sydney]"
  by (simp_all add: fetched_def fetchRecords_def initialState_def)

lemma id_simps: "id_rec brisbane = 1" "id_rec sydney = 2"
  by (simp_all add: brisbane_def sydney_def)

lemma cheap_eval: "\<not> matchCriterion brisbane cheap" "matchCriterion sydney cheap"
  by (simp_all add: match_defs parse_defs toDouble_numeral brisbane_def sydney_def cheap_def)

lemma inB_eval: "matchCriterion brisbane inB" "\<not> matchCriterion sydney inB"
  by (simp_all add: match_defs parse_defs toDouble_numeral brisbane_def sydney_def inB_def)

lemma dear_eval: "\<not> matchCriterion brisbane dear" "\<not> matchCriterion sydney dear"
  by (simp_all add: match_defs parse_defs toDouble_numeral brisbane_def sydney_def dear_def)

lemma blank_eval:
  "numericPath (JStr '''') (JStr '''')" "parseFloat (JStr '''') = NaN"
  "\<not> matchCriterion blankName nameIsBlank"
  by (simp_all add: match_defs parse_defs blankName_def nameIsBlank_def)

lemma ten_five:
  "isDecimalText (JStr ''10'')" "isDecimalText (JStr ''5'')"
  "stringToNumber ''10'' = Fin 10" "stringToNumber ''5'' = Fin 5"
  by (simp_all add: isDecimalText_def parse_defs toDouble_numeral)

text \<open>
  The second scenario of the specification: \<^verbatim>\<open>city startswith B\<close> or
  \<^verbatim>\<open>price greater 200\<close> keeps Brisbane, on the city alone.
\<close>

lemma scenario_or:
  "records (applyFilter [inB, dear] (JStr ''OR'') fetched) = [brisbane]"
  by (simp add: records_applyFilter keepRecord_iff fetched_simps inB_eval dear_eval)

subsection \<open>What the filter selects\<close>

text \<open>
  Claim C1. For a non-empty criteria list and the logic \<^verbatim>\<open>'AND'\<close> or \<^verbatim>\<open>'OR'\<close>,
  \<^verbatim>\<open>applyFilter\<close> stores in \<^verbatim>\<open>records\<close> a new list that keeps the records of
  the snapshot in their order: exactly those for which every criterion holds (under
  AND) or at least one holds (under OR).
\<close>

theorem applyFilter_selects:
  assumes "criteria \<noteq> []" and "logic = JStr ''AND'' \<or> logic = JStr ''OR''"
  shows "records (applyFilter criteria logic s) =
           filter (\<lambda>r. if logic = JStr ''AND'' then (\<forall>c\<in>set criteria. matchCriterion r c)
                       else (\<exists>c\<in>set criteria. matchCriterion r c)) (originalRecords s)
         \<and> subseq (records (applyFilter criteria logic s)) (originalRecords s)"
proof -
  have k: "keepRecord criteria logic =
             (\<lambda>r. if logic = JStr ''AND'' then (\<forall>c\<in>set criteria. matchCriterion r c)
                   else (\<exists>c\<in>set criteria. matchCriterion r c))"
    by (rule ext) (simp add: keepRecord_iff)
  have "records (applyFilter criteria logic s) = filter (keepRecord criteria logic) (originalRecords s)"
    using assms(1) by (simp add: records_applyFilter)
  then show ?thesis
    unfolding k by simp
qed

text \<open>The first scenario of the specification: \<^verbatim>\<open>price lessOrEqual 75\<close> keeps Sydney.\<close>

theorem applyFilter_selects_witness:
  "[cheap] \<noteq> [] \<and> (JStr ''AND'' = JStr ''AND'' \<or> JStr ''AND'' = JStr ''OR'')
   \<and> records (applyFilter [cheap] (JStr ''AND'') fetched) = [sydney]
   \<and> subseq [sydney] (originalRecords fetched)"
proof -
  have h1: "[cheap] \<noteq> []" by simp
  have h2: "JStr ''AND'' = JStr ''AND'' \<or> JStr ''AND'' = JStr ''OR''" by simp
  show ?thesis
    using applyFilter_selects [OF h1 h2, of fetched]
    by (simp add: fetched_simps cheap_eval)
qed

subsection \<open>Numeric mode\<close>

text \<open>
  On the numeric path the callback is the numeric operator table on the two results of
  \<^verbatim>\<open>parseFloat\<close>; an operator outside the table yields false there.
\<close>

lemma numeric_path_table:
  assumes "\<not> looseNull (getField r (field_c c))"
    and "numericPath (getField r (field_c c)) (value_c c)"
  shows "matchCriterion r c
         = numericTable (operator_c c) (parseFloat (getField r (field_c c)))
             (parseFloat (value_c c))"
  using assms by (simp add: matchCriterion_def Let_def numericTable_def)

text \<open>
  Where both sides are numbers or decimal literals, guard and parse agree: the numeric
  path is taken and the operators compare the two numbers that were parsed.
\<close>

lemma numeric_on_decimals:
  assumes "\<not> looseNull (getField r (field_c c))"
    and "isDecimalText (getField r (field_c c))" and "isDecimalText (value_c c)"
  shows "numericPath (getField r (field_c c)) (value_c c)
         \<and> matchCriterion r c
           = numericTable (operator_c c) (toNumber (getField r (field_c c)))
               (toNumber (value_c c))"
proof -
  have eq: "toNumber (getField r (field_c c)) = parseFloat (getField r (field_c c))"
    "parseFloat (getField r (field_c c)) \<noteq> NaN"
    "toNumber (value_c c) = parseFloat (value_c c)" "parseFloat (value_c c) \<noteq> NaN"
    using decimalText_agree [OF assms(2)] decimalText_agree [OF assms(3)] by simp_all
  then have p: "numericPath (getField r (field_c c)) (value_c c)"
    by (simp add: numericPath_def isNaN_def)
  show ?thesis
    using p numeric_path_table [OF assms(1) p] eq by simp
qed

text \<open>The specification's example: \<^verbatim>\<open>"10"\<close> is greater than \<^verbatim>\<open>"5"\<close>, numerically.\<close>

lemma ten_greater_five:
  "numericPath (getField tenX (field_c moreThan5)) (value_c moreThan5)
   \<and> matchCriterion tenX moreThan5"
proof -
  have g: "getField tenX (field_c moreThan5) = JStr ''10''"
    "value_c moreThan5 = JStr ''5''" "operator_c moreThan5 = ''greater''"
    by (simp_all add: getField_def tenX_def moreThan5_def)
  have "\<not> looseNull (getField tenX (field_c moreThan5))"
    by (simp add: g looseNull_def)
  from numeric_on_decimals [OF this] show ?thesis
    by (simp add: g ten_five numericTable_def)
qed

text \<open>
  Claim C2. A criterion is evaluated numerically if and only if the record's field value
  and the criterion's value both parse as valid decimal numbers; the five comparison
  operators then compare the two parsed numbers and any other operator yields false.

  The callback departs from this where its guard and its parser disagree. The guard is
  \<^verbatim>\<open>!isNaN(val) && !isNaN(c.value)\<close>, and \<^verbatim>\<open>isNaN\<close> coerces with \<^verbatim>\<open>Number\<close>,
  for which the empty string is 0; the numbers compared come from \<^verbatim>\<open>parseFloat\<close>,
  for which the empty string is NaN. A record whose field is the empty string, asked
  for \<^verbatim>\<open>equals\<close> the empty string: neither side parses as a number, so by the claim
  the two are compared as strings and the record matches (the last conjunct). The
  callback takes the numeric path, compares NaN with NaN and drops the record.
\<close>

theorem numeric_mode_blank:
  "getField blankName (field_c nameIsBlank) = JStr ''''
   \<and> value_c nameIsBlank = JStr '''' \<and> operator_c nameIsBlank = ''equals''
   \<and> \<not> parsesAsNumber (JStr '''') \<and> \<not> isDecimalText (JStr '''')
   \<and> numericPath (JStr '''') (JStr '''')
   \<and> \<not> matchCriterion blankName nameIsBlank
   \<and> records (applyFilter [nameIsBlank] (JStr ''AND'')
        \<lparr>records = [], originalRecords = [blankName]\<rparr>) = []
   \<and> stringTable ''equals'' (toLowerCase (String_js (JStr '''')))
        (toLowerCase (String_js (JStr '''')))"
proof -
  have g: "getField blankName (field_c nameIsBlank) = JStr ''''"
    "value_c nameIsBlank = JStr ''''" "operator_c nameIsBlank = ''equals''"
    by (simp_all add: getField_def blankName_def nameIsBlank_def)
  have p: "\<not> parsesAsNumber (JStr '''')" "\<not> isDecimalText (JStr '''')"
    by (simp_all add: blank_eval parsesAsNumber_def isDecimalText_def trimStart_def
        parseDecimal_Nil)
  have r: "records (applyFilter [nameIsBlank] (JStr ''AND'')
             \<lparr>records = [], originalRecords = [blankName]\<rparr>) = []"
    by (simp add: records_applyFilter keepRecord_iff blank_eval)
  have t: "stringTable ''equals'' (toLowerCase (String_js (JStr '''')))
             (toLowerCase (String_js (JStr '''')))"
    by (simp add: stringTable_def)
  show ?thesis
    using g p r t blank_eval by simp
qed

subsection \<open>Missing and null fields\<close>

text \<open>
  A field that the record does not hold and that no object inherits, or one that is
  null, never satisfies a criterion: under AND the record is dropped, under any other
  logic the remaining criteria decide as if the criterion were not there.
\<close>

lemma missing_own_field_not_satisfied:
  assumes "(values_rec r (field_c c) = None \<and> prototypeMember (field_c c) = JUndefined)
           \<or> values_rec r (field_c c) = Some JNull"
  shows "\<not> matchCriterion r c
       \<and> keepRecord (cs1 @ c # cs2) logic r
           = (logic \<noteq> JStr ''AND'' \<and> keepRecord (cs1 @ cs2) logic r)"
proof -
  have n: "\<not> matchCriterion r c"
    using assms by (auto simp: matchCriterion_def getField_def looseNull_def)
  then show ?thesis
    by (auto simp: keepRecord_iff)
qed

text \<open>The specification's example: a record without fields, asked for \<^verbatim>\<open>age equals 5\<close>.\<close>

lemma age_missing:
  "\<not> matchCriterion noFields ageIs5
   \<and> records (applyFilter [ageIs5] (JStr ''AND'')
        \<lparr>records = [], originalRecords = [noFields]\<rparr>) = []"
proof -
  have "(values_rec noFields (field_c ageIs5) = None
          \<and> prototypeMember (field_c ageIs5) = JUndefined)
        \<or> values_rec noFields (field_c ageIs5) = Some JNull"
    by (simp add: noFields_def ageIs5_def prototypeMember_def objectPrototypeFunctions_def)
  from missing_own_field_not_satisfied [OF this, of "[]" "[]" JNull] show ?thesis
    by (simp add: records_applyFilter keepRecord_iff)
qed

text \<open>
  Claim C3. When the record's values have no entry for the criterion's field, or the
  entry is null, the criterion is not satisfied for that record, whatever the operator,
  and nothing is raised.

  The callback does not raise, but it reads the field with
  \<^verbatim>\<open>record.values[c.field]\<close>, and that read also finds what every object inherits.
  Field names are free text, so a form may have a field called \<^verbatim>\<open>toString\<close>; a
  record saved before the field existed has no entry for it, the read gives the built-in
  function, which is not null, and its rendering contains \<^verbatim>\<open>function\<close>: the
  criterion \<^verbatim>\<open>toString contains function\<close> is satisfied and the record is kept.
\<close>

theorem missing_field_inherited_member:
  "values_rec noFields (field_c saysFunction) = None
   \<and> getField noFields (field_c saysFunction) = JFun ''toString''
   \<and> matchCriterion noFields saysFunction
   \<and> records (applyFilter [saysFunction] (JStr ''AND'')
        \<lparr>records = [], originalRecords = [noFields]\<rparr>) = [noFields]"
proof -
  have g: "values_rec noFields (field_c saysFunction) = None"
    "getField noFields (field_c saysFunction) = JFun ''toString''"
    by (simp_all add: getField_def noFields_def saysFunction_def prototypeMember_def
        objectPrototypeFunctions_def)
  have c: "value_c saysFunction = JStr ''function''" "operator_c saysFunction = ''contains''"
    by (simp_all add: saysFunction_def)
  have strVal: "toLowerCase (String_js (JFun ''toString''))
                = ''function tostring() { [native code] }''"
    by (simp add: toLowerCase_def lowerChar_def)
  have input: "toLowerCase (String_js (JStr ''function'')) = ''function''"
    by (simp add: toLowerCase_def lowerChar_def)
  have string_path: "\<not> numericPath (JFun ''toString'') (JStr ''function'')"
    by (simp add: numericPath_def isNaN_def)
  have found: "includes_js ''function tostring() { [native code] }'' ''function''"
    by simp
  have m: "matchCriterion noFields saysFunction"
    unfolding matchCriterion_def Let_def g c strVal input
    using string_path found by (simp add: looseNull_def)
  show ?thesis
    using g m by (simp add: records_applyFilter keepRecord_iff)
qed

subsection \<open>String mode\<close>

text \<open>
  Claim C4. When the field is present and not null and the numeric path is not taken,
  the criterion is evaluated on the lowercased renderings of the two values:
  \<^verbatim>\<open>equals\<close> is equality, \<^verbatim>\<open>contains\<close> a substring test, \<^verbatim>\<open>startswith\<close> a
  prefix test, and every other operator yields false. In particular the field value
  \<^verbatim>\<open>"Sydney"\<close> satisfies \<^verbatim>\<open>equals "sydney"\<close>.
\<close>

theorem string_mode:
  "(val = getField r (field_c c) \<and> \<not> looseNull val \<and> \<not> numericPath val (value_c c) \<longrightarrow>
      matchCriterion r c
        = stringTable (operator_c c) (toLowerCase (String_js val))
            (toLowerCase (String_js (value_c c))))
   \<and> (getField r (field_c c) = JStr ''Sydney'' \<and> operator_c c = ''equals''
        \<and> value_c c = JStr ''sydney'' \<longrightarrow> matchCriterion r c)"
proof -
  have "\<not> numericPath (JStr ''Sydney'') (JStr ''sydney'')"
    by (simp add: numericPath_def parse_defs)
  then show ?thesis
    by (auto simp: matchCriterion_def Let_def stringTable_def includes_js_sublist startsWith_prefix
        looseNull_def toLowerCase_def lowerChar_def)
qed

theorem string_mode_witness:
  "JStr ''Sydney'' = getField sydney (field_c isSydney) \<and> \<not> looseNull (JStr ''Sydney'')
   \<and> \<not> numericPath (JStr ''Sydney'') (value_c isSydney)
   \<and> operator_c isSydney = ''equals'' \<and> value_c isSydney = JStr ''sydney''
   \<and> matchCriterion sydney isSydney
   \<and> stringTable ''equals'' (toLowerCase ''Sydney'') (toLowerCase ''sydney'')"
  using string_mode [of "JStr ''Sydney''" sydney isSydney]
  by (simp add: sydney_def isSydney_def getField_def looseNull_def numericPath_def parse_defs
      stringTable_def toLowerCase_def lowerChar_def)

subsection \<open>Algebra of the filter\<close>

text \<open>
  Claim C5. With an empty criteria list, whatever the logic, the filter is the identity:
  \<^verbatim>\<open>records\<close> becomes the snapshot itself, the same elements in the same order (and
  not the empty list).
\<close>

theorem empty_criteria_identity:
  "records (applyFilter [] logic s) = originalRecords s"
  by (simp add: applyFilter_def)

theorem empty_criteria_identity_witness:
  "records (applyFilter [] (JStr ''OR'') fetched) = [brisbane, sydney]
   \<and> records (applyFilter [] (JStr ''AND'') (applyFilter [dear] (JStr ''AND'') fetched))
       = [brisbane, sydney]"
  using empty_criteria_identity [of "JStr ''OR''" fetched]
    empty_criteria_identity [of "JStr ''AND''" "applyFilter [dear] (JStr ''AND'') fetched"]
  by (simp add: fetched_simps originalRecords_applyFilter)

text \<open>
  Claim C6. \<^verbatim>\<open>applyFilter\<close> computes its result from the snapshot
  \<^verbatim>\<open>originalRecords\<close>, which it leaves as it is, and never from \<^verbatim>\<open>records\<close>,
  the output of an earlier application: of two successive applications the second gives
  what it would have given alone, so filters do not stack. Right after a fetch the
  snapshot is the fetched list.
\<close>

theorem applyFilter_from_snapshot:
  "originalRecords (applyFilter c1 l1 s) = originalRecords s
   \<and> records (applyFilter c2 l2 (applyFilter c1 l1 s)) = records (applyFilter c2 l2 s)
   \<and> records (applyFilter c2 l2 (s\<lparr>records := rs\<rparr>)) = records (applyFilter c2 l2 s)
   \<and> records (applyFilter c2 l2 (fetchRecords (Array data) s))
       = (if c2 = [] then data else filter_js (keepRecord c2 l2) data)"
  by (simp add: applyFilter_def fetchRecords_def)

theorem applyFilter_from_snapshot_witness:
  "records (applyFilter [inB] (JStr ''AND'') fetched) = [brisbane]
   \<and> records (applyFilter [cheap] (JStr ''AND'') (applyFilter [inB] (JStr ''AND'') fetched))
       = [sydney]"
proof -
  have "records (applyFilter [cheap] (JStr ''AND'') (applyFilter [inB] (JStr ''AND'') fetched))
        = records (applyFilter [cheap] (JStr ''AND'') fetched)"
    using applyFilter_from_snapshot [of "[inB]" "JStr ''AND''" fetched "[cheap]" "JStr ''AND''"]
    by simp
  then show ?thesis
    by (simp add: records_applyFilter keepRecord_iff fetched_simps cheap_eval inB_eval)
qed

text \<open>
  Claim C7. For a single criterion the logic does not matter: filtering with \<open>[c]\<close>
  under OR gives the same as under AND.
\<close>

theorem single_criterion_logic_irrelevant:
  "applyFilter [c] (JStr ''OR'') s = applyFilter [c] (JStr ''AND'') s"
proof -
  have "keepRecord [c] (JStr ''OR'') = keepRecord [c] (JStr ''AND'')"
    by (rule ext) (simp add: keepRecord_def)
  then show ?thesis
    by (simp add: applyFilter_def)
qed

theorem single_criterion_logic_irrelevant_witness:
  "records (applyFilter [inB] (JStr ''OR'') fetched) = [brisbane]
   \<and> records (applyFilter [inB] (JStr ''AND'') fetched) = [brisbane]"
proof -
  have "records (applyFilter [inB] (JStr ''AND'') fetched) = [brisbane]"
    by (simp add: records_applyFilter keepRecord_iff fetched_simps inB_eval)
  then show ?thesis
    using single_criterion_logic_irrelevant [of inB fetched] by simp
qed

text \<open>
  Claim C8. Under AND, the result for \<open>[c1, c2]\<close> is contained in the result for
  \<open>[c1]\<close> alone and in the result for \<open>[c2]\<close> alone (as a set of records, and also
  as a list in order).
\<close>

theorem and_narrows:
  "set (records (applyFilter [c1, c2] (JStr ''AND'') s))
     \<subseteq> set (records (applyFilter [c1] (JStr ''AND'') s))
   \<and> set (records (applyFilter [c1, c2] (JStr ''AND'') s))
     \<subseteq> set (records (applyFilter [c2] (JStr ''AND'') s))
   \<and> subseq (records (applyFilter [c1, c2] (JStr ''AND'') s))
       (records (applyFilter [c1] (JStr ''AND'') s))
   \<and> subseq (records (applyFilter [c1, c2] (JStr ''AND'') s))
       (records (applyFilter [c2] (JStr ''AND'') s))"
proof -
  let ?both = "keepRecord [c1, c2] (JStr ''AND'')"
  have f1: "filter ?both xs = filter ?both (filter (keepRecord [c1] (JStr ''AND'')) xs)" for xs
    by (induction xs) (auto simp: keepRecord_iff)
  have f2: "filter ?both xs = filter ?both (filter (keepRecord [c2] (JStr ''AND'')) xs)" for xs
    by (induction xs) (auto simp: keepRecord_iff)
  have s1: "subseq (records (applyFilter [c1, c2] (JStr ''AND'') s))
              (records (applyFilter [c1] (JStr ''AND'') s))"
    by (simp add: records_applyFilter, subst f1, rule subseq_filter_left)
  have s2: "subseq (records (applyFilter [c1, c2] (JStr ''AND'') s))
              (records (applyFilter [c2] (JStr ''AND'') s))"
    by (simp add: records_applyFilter, subst f2, rule subseq_filter_left)
  have t1: "set (records (applyFilter [c1, c2] (JStr ''AND'') s))
              \<subseteq> set (records (applyFilter [c1] (JStr ''AND'') s))"
    by (auto simp: records_applyFilter keepRecord_iff)
  have t2: "set (records (applyFilter [c1, c2] (JStr ''AND'') s))
              \<subseteq> set (records (applyFilter [c2] (JStr ''AND'') s))"
    by (auto simp: records_applyFilter keepRecord_iff)
  show ?thesis
    using s1 s2 t1 t2 by simp
qed

theorem and_narrows_witness:
  "records (applyFilter [inB, cheap] (JStr ''AND'') fetched) = []
   \<and> records (applyFilter [inB] (JStr ''AND'') fetched) = [brisbane]
   \<and> records (applyFilter [cheap] (JStr ''AND'') fetched) = [sydney]
   \<and> set (records (applyFilter [inB, cheap] (JStr ''AND'') fetched))
       \<subseteq> set (records (applyFilter [inB] (JStr ''AND'') fetched))"
  using and_narrows [of inB cheap fetched]
  by (simp add: records_applyFilter keepRecord_iff fetched_simps cheap_eval inB_eval)

subsection \<open>The displayed list and the snapshot\<close>

text \<open>
  Claim C9. In every state the component can reach by fetches, filter applications and
  deletions, the displayed \<^verbatim>\<open>records\<close> are a subsequence of \<^verbatim>\<open>originalRecords\<close>,
  in order. The three steps behave as the claim says: a fetch sets both to the same
  list, a filter selects a subsequence of the snapshot, and a deletion removes the same
  id from both lists. Each handler is taken as one step, as its state updates are.
\<close>

theorem records_subseq_original:
  "(reachable s \<longrightarrow> subseq (records s) (originalRecords s))
   \<and> records (fetchRecords (Array data) s0) = originalRecords (fetchRecords (Array data) s0)
   \<and> subseq (records (applyFilter criteria logic s0)) (originalRecords s0)
   \<and> records (handleDelete True recordId s0) = filter (\<lambda>r. id_rec r \<noteq> recordId) (records s0)
   \<and> originalRecords (handleDelete True recordId s0)
       = filter (\<lambda>r. id_rec r \<noteq> recordId) (originalRecords s0)"
proof -
  have inv: "subseq (records s) (originalRecords s)" if "reachable s"
    using that
  proof (induction rule: reachable.induct)
    case init
    show ?case by (simp add: initialState_def)
  next
    case (fetch s resp)
    then show ?case by (cases resp) (simp_all add: fetchRecords_def)
  next
    case (apply_filter s criteria logic)
    show ?case by (simp add: records_applyFilter originalRecords_applyFilter)
  next
    case (delete s ok recordId)
    then show ?case by (simp add: handleDelete_def filter_js_filter)
  qed
  show ?thesis
    using inv by (simp add: fetchRecords_def handleDelete_def filter_js_filter records_applyFilter)
qed

theorem records_subseq_original_witness:
  "reachable (handleDelete True 1 (applyFilter [inB] (JStr ''AND'') fetched))
   \<and> records (handleDelete True 1 (applyFilter [inB] (JStr ''AND'') fetched)) = []
   \<and> originalRecords (handleDelete True 1 (applyFilter [inB] (JStr ''AND'') fetched)) = [sydney]
   \<and> subseq (records (handleDelete True 1 (applyFilter [inB] (JStr ''AND'') fetched)))
       (originalRecords (handleDelete True 1 (applyFilter [inB] (JStr ''AND'') fetched)))"
proof -
  let ?s = "handleDelete True 1 (applyFilter [inB] (JStr ''AND'') fetched)"
  have r: "reachable ?s"
    unfolding fetched_def by (intro reachable.intros)
  have "subseq (records ?s) (originalRecords ?s)"
    using records_subseq_original [of ?s] r by blast
  moreover have "records ?s = []" "originalRecords ?s = [sydney]"
    by (simp_all add: handleDelete_def filter_js_filter records_applyFilter
        originalRecords_applyFilter keepRecord_iff fetched_simps inB_eval id_simps)
  ultimately show ?thesis
    using r by simp
qed

subsection \<open>The logic argument\<close>

text \<open>
  Claim C10. For a non-empty criteria list and any logic other than the string
  \<^verbatim>\<open>'AND'\<close> (so \<^verbatim>\<open>'OR'\<close>, \<^verbatim>\<open>undefined\<close>, \<^verbatim>\<open>'and'\<close>, anything), a record is
  kept exactly when at least one criterion is satisfied.
\<close>

theorem non_and_logic_is_or:
  assumes "criteria \<noteq> []" and "logic \<noteq> JStr ''AND''"
  shows "records (applyFilter criteria logic s)
           = filter (\<lambda>r. \<exists>c\<in>set criteria. matchCriterion r c) (originalRecords s)"
proof -
  have k: "keepRecord criteria logic = (\<lambda>r. \<exists>c\<in>set criteria. matchCriterion r c)"
    using assms(2) by (intro ext) (simp add: keepRecord_iff)
  show ?thesis
    using assms(1) by (simp add: records_applyFilter k)
qed

theorem non_and_logic_is_or_witness:
  "[inB, dear] \<noteq> [] \<and> JUndefined \<noteq> JStr ''AND''
   \<and> records (applyFilter [inB, dear] JUndefined fetched) = [brisbane]
   \<and> records (applyFilter [inB, dear] (JStr ''and'') fetched) = [brisbane]
   \<and> records (applyFilter [inB, dear] (JStr ''AND'') fetched) = []"
proof -
  have h1: "[inB, dear] \<noteq> []" by simp
  have h2: "JUndefined \<noteq> JStr ''AND''" by simp
  have h3: "JStr ''and'' \<noteq> JStr ''AND''" by simp
  have "records (applyFilter [inB, dear] (JStr ''AND'') fetched) = []"
    by (simp add: records_applyFilter keepRecord_iff fetched_simps inB_eval dear_eval)
  then show ?thesis
    using non_and_logic_is_or [OF h1 h2, of fetched] non_and_logic_is_or [OF h1 h3, of fetched]
    by (simp add: fetched_simps inB_eval dear_eval)
qed

end
